theory Spec2Isabelle
  imports Main "HOL-Library.Sublist"
begin

section \<open>Python values, strings and dictionaries\<close>

text \<open>
  The loader of \<^verbatim>\<open>dynaconf/loaders/base.py\<close> moves dynamically typed data from
  parsed configuration sources into a settings object. Values are modelled by a
  datatype of Python values; dictionaries are association lists in insertion order
  with string keys (the keys of a parsed configuration mapping). Tuples are not
  told apart from lists. Strings are ASCII: \<^verbatim>\<open>str.lower\<close> and \<^verbatim>\<open>str.upper\<close>
  change the 26 letters and nothing else.
\<close>

datatype pyval =
    PNone
  | PBool bool
  | PInt int
  | PStr string
  | PList "pyval list"
  | PDict "(string \<times> pyval) list"

type_synonym pydict = "(string \<times> pyval) list"

text \<open>Python truthiness, as tested by \<^verbatim>\<open>if x\<close>, \<^verbatim>\<open>not x\<close> and \<^verbatim>\<open>x or y\<close>.\<close>

fun truthy :: "pyval \<Rightarrow> bool" where
  "truthy PNone = False"
| "truthy (PBool b) = b"
| "truthy (PInt i) = (i \<noteq> 0)"
| "truthy (PStr s) = (s \<noteq> [])"
| "truthy (PList xs) = (xs \<noteq> [])"
| "truthy (PDict kvs) = (kvs \<noteq> [])"

text \<open>\<^verbatim>\<open>x or y\<close>\<close>

definition py_or :: "pyval \<Rightarrow> pyval \<Rightarrow> pyval" where
  "py_or x y = (if truthy x then x else y)"

definition ascii_upper :: string where
  "ascii_upper = ''ABCDEFGHIJKLMNOPQRSTUVWXYZ''"

definition ascii_lower :: string where
  "ascii_lower = ''abcdefghijklmnopqrstuvwxyz''"

definition lower_char :: "char \<Rightarrow> char" where
  "lower_char c = (case map_of (zip ascii_upper ascii_lower) c of Some d \<Rightarrow> d | None \<Rightarrow> c)"

definition upper_char :: "char \<Rightarrow> char" where
  "upper_char c = (case map_of (zip ascii_lower ascii_upper) c of Some d \<Rightarrow> d | None \<Rightarrow> c)"

text \<open>\<^verbatim>\<open>s.lower()\<close> and \<^verbatim>\<open>s.upper()\<close>\<close>

definition str_lower :: "string \<Rightarrow> string" where
  "str_lower s = map lower_char s"

definition str_upper :: "string \<Rightarrow> string" where
  "str_upper s = map upper_char s"

text \<open>\<^verbatim>\<open>s.endswith(exts)\<close> for a tuple of suffixes\<close>

definition endswith :: "string \<Rightarrow> string list \<Rightarrow> bool" where
  "endswith s exts = list_ex (\<lambda>e. suffix e s) exts"

text \<open>\<^verbatim>\<open>os.path.split(p)[-1]\<close>: what follows the last slash\<close>

definition basename :: "string \<Rightarrow> string" where
  "basename p = rev (takeWhile (\<lambda>c. c \<noteq> CHR ''/'') (rev p))"

text \<open>
  \<^verbatim>\<open>d[k] = v\<close>: an existing key keeps its position and takes the new value, a new
  key goes to the end.
\<close>

fun dict_set :: "pydict \<Rightarrow> string \<Rightarrow> pyval \<Rightarrow> pydict" where
  "dict_set [] k v = [(k, v)]"
| "dict_set ((k', v') # kvs) k v =
     (if k' = k then (k', v) # kvs else (k', v') # dict_set kvs k v)"

text \<open>The rest of a dictionary after \<^verbatim>\<open>d.pop(k, default)\<close>\<close>

definition dict_del :: "pydict \<Rightarrow> string \<Rightarrow> pydict" where
  "dict_del d k = filter (\<lambda>kv. fst kv \<noteq> k) d"

text \<open>The comprehension \<^verbatim>\<open>{f(k): v for k, v in d.items()}\<close>\<close>

definition rekey :: "(string \<Rightarrow> string) \<Rightarrow> pydict \<Rightarrow> pydict" where
  "rekey f d = foldl (\<lambda>acc kv. dict_set acc (f (fst kv)) (snd kv)) [] d"

section \<open>Errors, log records and the settings object\<close>

text \<open>
  The exceptions the loader can raise or let through. \<open>IOError\<close> is what
  \<^verbatim>\<open>io.open\<close> raises for a missing file; \<open>AttributeError\<close> is a method call
  (\<^verbatim>\<open>.items()\<close>, \<^verbatim>\<open>.lower()\<close>, \<^verbatim>\<open>.endswith()\<close>) on a value that has no such
  method; \<open>ReaderError\<close> stands for whatever else a reader raises.
\<close>

datatype error =
    KeyError string
  | AttributeError
  | IOError
  | ReaderError string

text \<open>
  What the debug record of \<^verbatim>\<open>_set_data_to_obj\<close> shows of the data: the key names
  only for a secret source, the whole mapping otherwise.
\<close>

datatype shown = KeysOnly "string list" | FullData pydict

datatype log_entry =
    Debug string
  | Warning string
  | DebugLoad string string "string option" shown

text \<open>
  The calls made on the settings object:
  \<^verbatim>\<open>obj.update(data, loader_identifier, is_secret, merge)\<close> and
  \<^verbatim>\<open>obj.set(key, value, loader_identifier, is_secret, merge)\<close>.
\<close>

datatype sink_call =
    Update pydict string bool pyval
  | SetKey string pyval string bool pyval

fun call_identifier :: "sink_call \<Rightarrow> string" where
  "call_identifier (Update d i s m) = i"
| "call_identifier (SetKey k v i s m) = i"

fun call_secret :: "sink_call \<Rightarrow> bool" where
  "call_secret (Update d i s m) = s"
| "call_secret (SetKey k v i s m) = s"

fun call_merge :: "sink_call \<Rightarrow> pyval" where
  "call_merge (Update d i s m) = m"
| "call_merge (SetKey k v i s m) = m"

text \<open>The configuration keys a call writes.\<close>

fun call_keys :: "sink_call \<Rightarrow> string list" where
  "call_keys (Update d i s m) = map fst d"
| "call_keys (SetKey k v i s m) = [k]"

text \<open>
  The settings object \<^verbatim>\<open>self.obj\<close>. Its storage is a collaborator of the loader
  and stays abstract (\<open>'s\<close>); \<open>calls\<close> records the update and set calls in the
  order they are made, \<open>logs\<close> the records sent to \<^verbatim>\<open>obj.logger\<close>, and
  \<open>loaded_files\<close> is \<^verbatim>\<open>obj._loaded_files\<close>.
\<close>

record 's settings =
  store :: 's
  calls :: "sink_call list"
  logs :: "log_entry list"
  loaded_files :: "string list"

text \<open>
  The collaborators that are not part of \<^verbatim>\<open>base.py\<close>, taken as parameters:
  the settings object's \<^verbatim>\<open>get\<close> (\<open>None\<close> for a missing name), \<^verbatim>\<open>update\<close> and
  \<^verbatim>\<open>set\<close>; \<^verbatim>\<open>build_env_list\<close>, \<^verbatim>\<open>ensure_a_list\<close> and \<^verbatim>\<open>upperfy\<close> of
  \<^verbatim>\<open>dynaconf.utils\<close>; and \<^verbatim>\<open>io.open\<close>, which yields the text of a file or
  raises.
\<close>

record 's collab =
  obj_get :: "'s \<Rightarrow> string \<Rightarrow> pyval option"
  obj_update :: "pydict \<Rightarrow> string \<Rightarrow> bool \<Rightarrow> pyval \<Rightarrow> 's \<Rightarrow> 's"
  obj_set :: "string \<Rightarrow> pyval \<Rightarrow> string \<Rightarrow> bool \<Rightarrow> pyval \<Rightarrow> 's \<Rightarrow> 's"
  build_env_list :: "'s \<Rightarrow> string \<Rightarrow> string list"
  ensure_a_list :: "pyval \<Rightarrow> pyval list"
  upperfy :: "string \<Rightarrow> string"
  io_open :: "string \<Rightarrow> pyval \<Rightarrow> error + string"

text \<open>
  The fields of a \<^verbatim>\<open>BaseLoader\<close> instance other than \<^verbatim>\<open>obj\<close>;
  \<open>base_identifier\<close> is \<^verbatim>\<open>self.identifier\<close>.
\<close>

record loader =
  env :: string
  base_identifier :: string
  extensions :: "string list"
  file_reader :: "string \<Rightarrow> error + pyval"
  string_reader :: "string \<Rightarrow> error + pyval"

text \<open>The calls a run adds to the record of calls.\<close>

definition new_calls :: "'s settings \<Rightarrow> 's settings \<Rightarrow> sink_call list" where
  "new_calls st st' = drop (length (calls st)) (calls st')"

definition new_logs :: "'s settings \<Rightarrow> 's settings \<Rightarrow> log_entry list" where
  "new_logs st st' = drop (length (logs st)) (logs st')"

section \<open>The loader\<close>

subsection \<open>\<^verbatim>\<open>_set_data_to_obj\<close>\<close>

text \<open>
  A key filter is \<^verbatim>\<open>None\<close> or a string; it is falsy when it is \<^verbatim>\<open>None\<close> or
  empty.
\<close>

definition key_truthy :: "string option \<Rightarrow> bool" where
  "key_truthy key = (case key of None \<Rightarrow> False | Some k \<Rightarrow> k \<noteq> [])"

text \<open>
  \<^verbatim>\<open>file_merge = file_merge or data.pop("DYNACONF_MERGE", False)\<close>: the flag and the
  data after the statement. The pop runs only when the flag given is falsy.
\<close>

definition pop_merge :: "pyval \<Rightarrow> pydict \<Rightarrow> pyval \<times> pydict" where
  "pop_merge file_merge data =
     (if truthy file_merge then (file_merge, data)
      else ((case map_of data ''DYNACONF_MERGE'' of Some v \<Rightarrow> v | None \<Rightarrow> PBool False),
            dict_del data ''DYNACONF_MERGE''))"

definition set_data_to_obj ::
  "'s collab \<Rightarrow> loader \<Rightarrow> pyval \<Rightarrow> string \<Rightarrow> string \<Rightarrow> pyval \<Rightarrow> string option \<Rightarrow>
   string option \<Rightarrow> 's settings \<Rightarrow> (error + unit) \<times> 's settings" where
  "set_data_to_obj dp self data0 ident source_file file_merge0 key0 env_name st =
     (case data0 of
        PDict items \<Rightarrow>
          (let data1 = rekey (upperfy dp) items;
               key = (if key_truthy key0 then map_option (upperfy dp) key0 else key0);
               is_secret = sublist ''secret'' source_file;
               keys = (if is_secret then KeysOnly (map fst data1) else FullData data1);
               path = basename source_file;
               st1 = st\<lparr>logs := logs st @ [DebugLoad (base_identifier self) path env_name keys]\<rparr>;
               file_merge = fst (pop_merge file_merge0 data1);
               data = snd (pop_merge file_merge0 data1)
           in if \<not> key_truthy key then
                (Inr (),
                 st1\<lparr>store := obj_update dp data ident is_secret file_merge (store st1),
                      calls := calls st1 @ [Update data ident is_secret file_merge]\<rparr>)
              else
                (case map_of data (the key) of
                   Some v \<Rightarrow>
                     (Inr (),
                      st1\<lparr>store := obj_set dp (the key) v ident is_secret file_merge (store st1),
                           calls := calls st1 @ [SetKey (the key) v ident is_secret file_merge]\<rparr>)
                 | None \<Rightarrow> (Inr (), st1)))
      | _ \<Rightarrow> (Inl AttributeError, st))"

subsection \<open>\<^verbatim>\<open>_envless_load\<close>\<close>

fun envless_load ::
  "'s collab \<Rightarrow> loader \<Rightarrow> pydict \<Rightarrow> bool \<Rightarrow> string option \<Rightarrow> 's settings \<Rightarrow>
   (error + unit) \<times> 's settings" where
  "envless_load dp self [] silent key st = (Inr (), st)"
| "envless_load dp self ((source_file, file_data) # rest) silent key st =
     (case set_data_to_obj dp self file_data (base_identifier self) source_file PNone key None st of
        (Inl e, st') \<Rightarrow> (Inl e, st')
      | (Inr u, st') \<Rightarrow> envless_load dp self rest silent key st')"

subsection \<open>\<^verbatim>\<open>_load_all_envs\<close>\<close>

text \<open>\<^verbatim>\<open>v.lower()\<close> on what \<^verbatim>\<open>obj.get\<close> returned\<close>

definition get_lower :: "pyval option \<Rightarrow> error + string" where
  "get_lower v = (case v of Some (PStr s) \<Rightarrow> Inr (str_lower s) | _ \<Rightarrow> Inl AttributeError)"

text \<open>The list \<^verbatim>\<open>base_envs\<close>, read from the settings object for each source.\<close>

definition base_envs :: "'s collab \<Rightarrow> 's \<Rightarrow> error + string list" where
  "base_envs dp s =
     (case get_lower (Some (py_or (case obj_get dp s ''ENVVAR_PREFIX_FOR_DYNACONF'' of
                                     None \<Rightarrow> PNone | Some v \<Rightarrow> v) (PStr ''''))) of
        Inl e \<Rightarrow> Inl e
      | Inr prefix_env \<Rightarrow>
          (case get_lower (obj_get dp s ''DEFAULT_ENV_FOR_DYNACONF'') of
             Inl e \<Rightarrow> Inl e
           | Inr default_env \<Rightarrow>
               Inr [prefix_env, default_env, ''development'', ''dynaconf'', ''global'']))"

text \<open>The message of the undefined-environment condition (two adjacent f-strings).\<close>

definition env_message :: "loader \<Rightarrow> string \<Rightarrow> string \<Rightarrow> string" where
  "env_message self env_name source_file =
     base_identifier self @ ''_loader: '' @ env_name @ '' env not'' @ ''defined in '' @ source_file"

text \<open>One round of the loop over the environment list.\<close>

definition load_env ::
  "'s collab \<Rightarrow> loader \<Rightarrow> string \<Rightarrow> pydict \<Rightarrow> pyval \<Rightarrow> string list \<Rightarrow> bool \<Rightarrow>
   string option \<Rightarrow> string \<Rightarrow> 's settings \<Rightarrow> (error + unit) \<times> 's settings" where
  "load_env dp self source_file file_data file_merge bases silent key env0 st =
     (let env_name = str_lower env0 in
      case map_of file_data env_name of
        None \<Rightarrow>
          (if env_name \<notin> set bases then
             (if silent
              then (Inr (), st\<lparr>logs := logs st @ [Warning (env_message self env_name source_file)]\<rparr>)
              else (Inl (KeyError (env_message self env_name source_file)), st))
           else (Inr (), st))
      | Some v \<Rightarrow>
          (let data = py_or v (PDict []) in
           case get_lower (obj_get dp (store st) ''DEFAULT_ENV_FOR_DYNACONF'') of
             Inl e \<Rightarrow> (Inl e, st)
           | Inr default_env \<Rightarrow>
               (let ident = (if env_name \<noteq> default_env
                             then base_identifier self @ ''_'' @ env_name
                             else base_identifier self)
                in set_data_to_obj dp self data ident source_file file_merge key
                     (Some env_name) st)))"

fun load_envs ::
  "'s collab \<Rightarrow> loader \<Rightarrow> string \<Rightarrow> pydict \<Rightarrow> pyval \<Rightarrow> string list \<Rightarrow> bool \<Rightarrow>
   string option \<Rightarrow> string list \<Rightarrow> 's settings \<Rightarrow> (error + unit) \<times> 's settings" where
  "load_envs dp self source_file file_data file_merge bases silent key [] st = (Inr (), st)"
| "load_envs dp self source_file file_data file_merge bases silent key (e # es) st =
     (case load_env dp self source_file file_data file_merge bases silent key e st of
        (Inl err, st') \<Rightarrow> (Inl err, st')
      | (Inr u, st') \<Rightarrow>
          load_envs dp self source_file file_data file_merge bases silent key es st')"

text \<open>One round of the loop over the sources.\<close>

definition load_source ::
  "'s collab \<Rightarrow> loader \<Rightarrow> bool \<Rightarrow> string option \<Rightarrow> string \<Rightarrow> pyval \<Rightarrow> 's settings \<Rightarrow>
   (error + unit) \<times> 's settings" where
  "load_source dp self silent key source_file file_data0 st =
     (case file_data0 of
        PDict items \<Rightarrow>
          (let file_data = rekey str_lower items;
               file_merge = (case map_of file_data ''dynaconf_merge'' of
                               None \<Rightarrow> PNone | Some v \<Rightarrow> v)
           in case base_envs dp (store st) of
                Inl e \<Rightarrow> (Inl e, st)
              | Inr bases \<Rightarrow>
                  load_envs dp self source_file file_data file_merge bases silent key
                    (build_env_list dp (store st) (env self)) st)
      | _ \<Rightarrow> (Inl AttributeError, st))"

fun load_all_envs ::
  "'s collab \<Rightarrow> loader \<Rightarrow> pydict \<Rightarrow> bool \<Rightarrow> string option \<Rightarrow> 's settings \<Rightarrow>
   (error + unit) \<times> 's settings" where
  "load_all_envs dp self [] silent key st = (Inr (), st)"
| "load_all_envs dp self ((source_file, file_data) # rest) silent key st =
     (case load_source dp self silent key source_file file_data st of
        (Inl e, st') \<Rightarrow> (Inl e, st')
      | (Inr u, st') \<Rightarrow> load_all_envs dp self rest silent key st')"

subsection \<open>\<^verbatim>\<open>get_source_date\<close>\<close>

text \<open>
  Opening a file and handing it to the file reader, inside the \<^verbatim>\<open>try\<close> block:
  an exception of either step is the outcome.
\<close>

definition open_and_read :: "'s collab \<Rightarrow> loader \<Rightarrow> 's \<Rightarrow> string \<Rightarrow> error + pyval" where
  "open_and_read dp self s source_file =
     (case io_open dp source_file
             (case obj_get dp s ''ENCODING_FOR_DYNACONF'' of
                None \<Rightarrow> PStr ''utf-8'' | Some v \<Rightarrow> v) of
        Inl e \<Rightarrow> Inl e
      | Inr text \<Rightarrow> file_reader self text)"

fun source_loop ::
  "'s collab \<Rightarrow> loader \<Rightarrow> pyval list \<Rightarrow> pydict \<Rightarrow> 's settings \<Rightarrow>
   (error + pydict) \<times> 's settings" where
  "source_loop dp self [] data st = (Inr data, st)"
| "source_loop dp self (f # files) data st =
     (case f of
        PStr source_file \<Rightarrow>
          (if endswith source_file (extensions self) then
             (case open_and_read dp self (store st) source_file of
                Inl IOError \<Rightarrow>
                  source_loop dp self files data
                    (st\<lparr>logs := logs st @
                       [Debug (base_identifier self @ ''_loader: '' @ source_file @ '' '' @
                               ''(Ignored, file not Found)'')]\<rparr>)
              | Inl e \<Rightarrow> (Inl e, st)
              | Inr content \<Rightarrow>
                  (let st1 = st\<lparr>loaded_files := loaded_files st @ [source_file]\<rparr>
                   in if truthy content then
                        source_loop dp self files (dict_set data source_file content)
                          (st1\<lparr>logs := logs st1 @
                             [Debug (base_identifier self @ ''_loader: '' @ source_file)]\<rparr>)
                      else
                        source_loop dp self files data
                          (st1\<lparr>logs := logs st1 @
                             [Debug (base_identifier self @ ''_loader: '' @ source_file @
                                     '' IS EMPTY'')]\<rparr>)))
           else
             (case string_reader self source_file of
                Inl e \<Rightarrow> (Inl e, st)
              | Inr content \<Rightarrow>
                  (if truthy content
                   then source_loop dp self files (dict_set data source_file content) st
                   else source_loop dp self files data st)))
      | _ \<Rightarrow> (Inl AttributeError, st))"

definition get_source_date ::
  "'s collab \<Rightarrow> loader \<Rightarrow> pyval list \<Rightarrow> 's settings \<Rightarrow> (error + pydict) \<times> 's settings" where
  "get_source_date dp self files st = source_loop dp self files [] st"

subsection \<open>\<^verbatim>\<open>load\<close>\<close>

text \<open>
  \<^verbatim>\<open>all([f.endswith(self.extensions) for f in split_files])\<close>: the comprehension
  calls \<^verbatim>\<open>endswith\<close> on every candidate before \<^verbatim>\<open>all\<close> looks at any result.
\<close>

definition all_endswith :: "pyval list \<Rightarrow> string list \<Rightarrow> error + bool" where
  "all_endswith fs exts =
     (if list_all (\<lambda>f. case f of PStr s \<Rightarrow> True | _ \<Rightarrow> False) fs
      then Inr (list_all (\<lambda>f. case f of PStr s \<Rightarrow> endswith s exts | _ \<Rightarrow> False) fs)
      else Inl AttributeError)"

text \<open>The list \<^verbatim>\<open>files\<close> that \<^verbatim>\<open>load\<close> computes from a truthy specifier.\<close>

definition source_files :: "'s collab \<Rightarrow> loader \<Rightarrow> pyval \<Rightarrow> error + pyval list" where
  "source_files dp self filename =
     (case filename of
        PList xs \<Rightarrow> Inr xs
      | _ \<Rightarrow>
          (let split_files = ensure_a_list dp filename in
           case all_endswith split_files (extensions self) of
             Inl e \<Rightarrow> Inl e
           | Inr True \<Rightarrow> Inr split_files
           | Inr False \<Rightarrow> Inr [filename]))"

definition load ::
  "'s collab \<Rightarrow> loader \<Rightarrow> pyval \<Rightarrow> string option \<Rightarrow> bool \<Rightarrow> 's settings \<Rightarrow>
   (error + unit) \<times> 's settings" where
  "load dp self filename0 key silent st =
     (let filename = py_or filename0
                       (case obj_get dp (store st) (str_upper (base_identifier self)) of
                          None \<Rightarrow> PNone | Some v \<Rightarrow> v)
      in if \<not> truthy filename then (Inr (), st)
         else
           (case source_files dp self filename of
              Inl e \<Rightarrow> (Inl e, st)
            | Inr files \<Rightarrow>
                (case get_source_date dp self files st of
                   (Inl e, st1) \<Rightarrow> (Inl e, st1)
                 | (Inr source_data, st1) \<Rightarrow>
                     (if obj_get dp (store st1) ''ENVLESS_MODE_FOR_DYNACONF'' = Some (PBool True)
                      then envless_load dp self source_data silent key st1
                      else load_all_envs dp self source_data silent key st1))))"

section \<open>Example collaborators\<close>

text \<open>
  Modelled from the spec: \<^verbatim>\<open>dynaconf.utils.upperfy\<close> is not part of the loader's
  file. The spec says that every top-level key is re-keyed to an upper-case form.
\<close>

definition upperfy_spec :: "string \<Rightarrow> string" where
  "upperfy_spec k = str_upper k"

fun split_on :: "char \<Rightarrow> string \<Rightarrow> string \<Rightarrow> string list" where
  "split_on sep acc [] = [rev acc]"
| "split_on sep acc (c # cs) =
     (if c = sep then rev acc # split_on sep [] cs else split_on sep (c # acc) cs)"

text \<open>
  Modelled from the spec: \<^verbatim>\<open>dynaconf.utils.ensure_a_list\<close> is not part of the
  loader's file. The spec says that a specifier is split into a candidate list on a
  separator convention; here the separator is the comma, a sequence is kept as it is,
  a falsy value gives no candidate and any other value is its own single candidate.
\<close>

definition ensure_a_list_spec :: "pyval \<Rightarrow> pyval list" where
  "ensure_a_list_spec v =
     (if \<not> truthy v then []
      else case v of
             PList xs \<Rightarrow> xs
           | PStr s \<Rightarrow> map PStr (split_on CHR '','' [] s)
           | _ \<Rightarrow> [v])"

text \<open>
  A settings object whose storage is a dictionary: \<^verbatim>\<open>get\<close> looks a name up,
  \<^verbatim>\<open>update\<close> and \<^verbatim>\<open>set\<close> store the values they are given. The file system is a
  table from paths to texts, and the environment list is given.
\<close>

definition dict_collab :: "(string \<times> string) list \<Rightarrow> string list \<Rightarrow> pydict collab" where
  "dict_collab fs envs =
     \<lparr>obj_get = map_of,
      obj_update = (\<lambda>data ident secret merge s.
                      foldl (\<lambda>acc kv. dict_set acc (fst kv) (snd kv)) s data),
      obj_set = (\<lambda>k v ident secret merge s. dict_set s k v),
      build_env_list = (\<lambda>s e. envs),
      ensure_a_list = ensure_a_list_spec,
      upperfy = upperfy_spec,
      io_open = (\<lambda>p enc. case map_of fs p of None \<Rightarrow> Inl IOError | Some t \<Rightarrow> Inr t)\<rparr>"

text \<open>A loader for one format whose readers parse by table lookup.\<close>

definition table_loader :: "string \<Rightarrow> (string \<times> pyval) list \<Rightarrow> loader" where
  "table_loader e parses =
     \<lparr>env = e,
      base_identifier = ''toml'',
      extensions = [''.toml'', ''.tml''],
      file_reader = (\<lambda>t. case map_of parses t of
                            None \<Rightarrow> Inl (ReaderError t) | Some v \<Rightarrow> Inr v),
      string_reader = (\<lambda>t. case map_of parses t of
                              None \<Rightarrow> Inl (ReaderError t) | Some v \<Rightarrow> Inr v)\<rparr>"

definition fresh :: "'s \<Rightarrow> 's settings" where
  "fresh s = \<lparr>store = s, calls = [], logs = [], loaded_files = []\<rparr>"

text \<open>
  The store of the scenarios: the default environment is \<^verbatim>\<open>development\<close>, the
  prefix is \<^verbatim>\<open>DYNACONF\<close> and the loader's sources are \<^verbatim>\<open>settings.toml\<close>.
\<close>

definition dev_store :: pydict where
  "dev_store =
     [(''DEFAULT_ENV_FOR_DYNACONF'', PStr ''development''),
      (''ENVVAR_PREFIX_FOR_DYNACONF'', PStr ''DYNACONF''),
      (''TOML'', PStr ''settings.toml'')]"

text \<open>
  The source of the spec's scenario, and its store with the prefix left open.
\<close>

definition scenario_source :: pyval where
  "scenario_source =
     PDict [(''development'', PDict [(''A'', PInt 1), (''dynaconf_merge'', PBool True)]),
            (''other'', PDict [(''A'', PInt 2)])]"

definition scenario_store :: "string \<Rightarrow> pydict" where
  "scenario_store p =
     [(''DEFAULT_ENV_FOR_DYNACONF'', PStr ''development''),
      (''ENVVAR_PREFIX_FOR_DYNACONF'', PStr p),
      (''TOML'', PStr ''settings.toml'')]"

subsection \<open>What \<^verbatim>\<open>get_source_date\<close> reads\<close>

text \<open>
  The outcome of reading one source identifier, as a round of the loop of
  \<^verbatim>\<open>get_source_date\<close> sees it: the parsed content, \<open>None\<close> for a file that
  \<^verbatim>\<open>io.open\<close> or the file reader reports missing (\<^verbatim>\<open>IOError\<close>, which the loop
  catches), or the exception that the loop lets through. A source is non-empty when its
  content is truthy; \<open>first_occurrences\<close> is the order of the keys of a dictionary
  that is filled by assignments in the order of the list.
\<close>

definition source_content :: "'s collab \<Rightarrow> loader \<Rightarrow> 's \<Rightarrow> string \<Rightarrow> error + pyval option" where
  "source_content dp self s f =
     (if endswith f (extensions self) then
        (case open_and_read dp self s f of
           Inl IOError \<Rightarrow> Inr None
         | Inl e \<Rightarrow> Inl e
         | Inr content \<Rightarrow> Inr (Some content))
      else
        (case string_reader self f of
           Inl e \<Rightarrow> Inl e
         | Inr content \<Rightarrow> Inr (Some content)))"

definition nonempty_source :: "'s collab \<Rightarrow> loader \<Rightarrow> 's \<Rightarrow> string \<Rightarrow> bool" where
  "nonempty_source dp self s f =
     (case source_content dp self s f of Inr (Some content) \<Rightarrow> truthy content | _ \<Rightarrow> False)"

definition content_of :: "'s collab \<Rightarrow> loader \<Rightarrow> 's \<Rightarrow> string \<Rightarrow> pyval" where
  "content_of dp self s f =
     (case source_content dp self s f of Inr (Some content) \<Rightarrow> content | _ \<Rightarrow> PNone)"

definition missing_file :: "'s collab \<Rightarrow> loader \<Rightarrow> 's \<Rightarrow> string \<Rightarrow> bool" where
  "missing_file dp self s f =
     (endswith f (extensions self) \<and> open_and_read dp self s f = Inl IOError)"

fun first_occurrences :: "'a list \<Rightarrow> 'a list" where
  "first_occurrences [] = []"
| "first_occurrences (x # xs) = x # first_occurrences (filter (\<lambda>y. y \<noteq> x) xs)"

text \<open>A file system with an empty file, and the parses of its texts.\<close>

definition reader_files :: "(string \<times> string) list" where
  "reader_files = [(''a.toml'', ''ta''), (''empty.toml'', ''te''), (''b.toml'', ''tb'')]"

definition reader_parses :: "(string \<times> pyval) list" where
  "reader_parses =
     [(''ta'', PDict [(''development'', PDict [(''A'', PInt 1)])]),
      (''te'', PDict []),
      (''tb'', PDict [(''development'', PDict [(''B'', PInt 2)])]),
      (''inline'', PDict [(''development'', PDict [(''C'', PInt 3)])])]"

subsection \<open>Earlier history of the settings object\<close>

text \<open>
  The loader only appends to the record of calls, to the log and to
  \<^verbatim>\<open>_loaded_files\<close>. \<open>prepend_history\<close> puts an earlier history in front of
  what a settings object holds of the three.
\<close>

definition prepend_history ::
  "sink_call list \<Rightarrow> log_entry list \<Rightarrow> string list \<Rightarrow> 's settings \<Rightarrow> 's settings" where
  "prepend_history cs ls fs st =
     st\<lparr>calls := cs @ calls st, logs := ls @ logs st, loaded_files := fs @ loaded_files st\<rparr>"

subsection \<open>Kinds of calls\<close>




text \<open>A source whose only block is \<^verbatim>\<open>Other\<close>.\<close>

definition other_source :: pydict where
  "other_source = [(''Other'', PDict [(''A'', PInt 2)])]"

section \<open>Dictionaries and evaluation\<close>

lemmas eval_defs =
  load_def dict_collab_def table_loader_def fresh_def dev_store_def
  py_or_def source_files_def ensure_a_list_spec_def all_endswith_def endswith_def
  suffix_to_prefix get_source_date_def open_and_read_def load_source_def rekey_def
  str_lower_def str_upper_def lower_char_def upper_char_def ascii_upper_def ascii_lower_def
  base_envs_def get_lower_def load_env_def env_message_def set_data_to_obj_def
  key_truthy_def pop_merge_def dict_del_def upperfy_spec_def basename_def new_calls_def
  new_logs_def sublist_code(3) Let_def

lemma keys_dict_set:
  "map fst (dict_set d k v) = (if k \<in> set (map fst d) then map fst d else map fst d @ [k])"
  by (induction d k v rule: dict_set.induct) auto

lemma distinct_dict_set:
  "distinct (map fst d) \<Longrightarrow> distinct (map fst (dict_set d k v))"
  by (simp add: keys_dict_set)

lemma distinct_foldl_dict_set:
  "distinct (map fst acc) \<Longrightarrow>
   distinct (map fst (foldl (\<lambda>acc kv. dict_set acc (f (fst kv)) (snd kv)) acc d))"
  by (induction d arbitrary: acc) (simp_all add: distinct_dict_set)

lemma distinct_rekey: "distinct (map fst (rekey f d))"
  by (simp add: rekey_def distinct_foldl_dict_set)

lemma keys_dict_del: "k \<notin> set (map fst (dict_del d k))"
  by (auto simp: dict_del_def)

lemma map_of_dict_del:
  "map_of (dict_del d k) k' = (if k' = k then None else map_of d k')"
  by (induction d) (auto simp: dict_del_def)

section \<open>The calls of \<^verbatim>\<open>_set_data_to_obj\<close>\<close>

lemma set_data_to_obj_calls:
  "new_calls st (snd (set_data_to_obj dp self (PDict items) ident src fm key en st)) =
     (let d1 = rekey (upperfy dp) items;
          k1 = (if key_truthy key then map_option (upperfy dp) key else key);
          m = fst (pop_merge fm d1);
          d = snd (pop_merge fm d1);
          secret = sublist ''secret'' src
      in if \<not> key_truthy k1 then [Update d ident secret m]
         else (case map_of d (the k1) of
                 Some v \<Rightarrow> [SetKey (the k1) v ident secret m]
               | None \<Rightarrow> []))"
  by (simp add: set_data_to_obj_def new_calls_def Let_def split: option.splits)

lemma set_data_to_obj_not_dict:
  "\<forall>items. data \<noteq> PDict items \<Longrightarrow>
   set_data_to_obj dp self data ident src fm key en st = (Inl AttributeError, st)"
  by (cases data) (simp_all add: set_data_to_obj_def)

lemma set_data_to_obj_merge:
  "\<forall>c \<in> set (new_calls st (snd (set_data_to_obj dp self (PDict items) ident src fm key en st))).
     call_merge c = fst (pop_merge fm (rekey (upperfy dp) items))"
  by (auto simp: set_data_to_obj_calls Let_def split: option.splits)

section \<open>The merge flag of an environment block\<close>

text \<open>
  Claim C1, as the code has it. \<^verbatim>\<open>_load_all_envs\<close> hands the top-level flag of the
  source, \<^verbatim>\<open>file_data.get("dynaconf_merge")\<close>, to every round of its loop over the
  environments. Every call that a round makes on the settings object carries the
  top-level flag when that flag is truthy; only when it is falsy does the call carry
  the flag of the block itself (the value under \<^verbatim>\<open>DYNACONF_MERGE\<close> after the keys
  are normalized), and \<^verbatim>\<open>False\<close> when the block has no such key.
\<close>

theorem block_merge_flag:
  "\<forall>c \<in> set (new_calls st (snd (load_env dp self src file_data fm bases silent key e st))).
     call_merge c =
       (if truthy fm then fm
        else (case map_of file_data (str_lower e) of
                Some (PDict items) \<Rightarrow>
                  (case map_of (rekey (upperfy dp) items) ''DYNACONF_MERGE'' of
                     Some v \<Rightarrow> v | None \<Rightarrow> PBool False)
              | _ \<Rightarrow> PBool False))"
proof (cases "map_of file_data (str_lower e)")
  case None
  then show ?thesis
    by (simp add: load_env_def new_calls_def Let_def)
next
  case (Some v)
  show ?thesis
  proof (cases "get_lower (obj_get dp (store st) ''DEFAULT_ENV_FOR_DYNACONF'')")
    case (Inl err)
    with Some show ?thesis by (simp add: load_env_def new_calls_def)
  next
    case (Inr d)
    show ?thesis
    proof (cases "\<exists>items. py_or v (PDict []) = PDict items")
      case True
      then obtain items where it: "py_or v (PDict []) = PDict items" by blast
      have "items = (case v of PDict xs \<Rightarrow> xs | _ \<Rightarrow> [])"
        using it by (cases v) (auto simp: py_or_def split: if_splits)
      with Some Inr it
        set_data_to_obj_merge [of st dp self items _ src fm key "Some (str_lower e)"]
      show ?thesis
        by (cases v)
          (auto simp: load_env_def Let_def pop_merge_def rekey_def py_or_def split: if_splits)
    next
      case False
      then have "set_data_to_obj dp self (py_or v (PDict [])) i src fm key en st =
                   (Inl AttributeError, st)" for i en
        by (intro set_data_to_obj_not_dict) auto
      with Some Inr show ?thesis by (simp add: load_env_def Let_def new_calls_def)
    qed
  qed
qed

text \<open>
  A block with its own flag and a source without a top-level flag: the one call
  carries the flag of the block.
\<close>

theorem block_merge_flag_witness:
  "map call_merge
     (new_calls (fresh dev_store)
        (snd (load_env (dict_collab [] []) (table_loader ''development'' []) ''settings.toml''
                [(''development'', PDict [(''A'', PInt 1), (''dynaconf_merge'', PBool True)])]
                PNone [] True None ''development'' (fresh dev_store)))) = [PBool True]"
  using block_merge_flag [of "fresh dev_store" "dict_collab [] []"
      "table_loader ''development'' []" "''settings.toml''"
      "[(''development'', PDict [(''A'', PInt 1), (''dynaconf_merge'', PBool True)])]"
      PNone "[]" True None "''development''"]
  by (simp add: eval_defs)

text \<open>
  Claim C1 as the spec states it fails: the source has a truthy top-level flag, the
  block \<^verbatim>\<open>development\<close> has its own flag \<^verbatim>\<open>False\<close>, and the call for the block
  carries \<^verbatim>\<open>True\<close>.
\<close>

theorem block_flag_does_not_override:
  "map call_merge
     (calls (snd (load (dict_collab [(''settings.toml'', ''text'')] [''development''])
        (table_loader ''development''
           [(''text'', PDict [(''dynaconf_merge'', PBool True),
                              (''development'', PDict [(''A'', PInt 1),
                                                       (''dynaconf_merge'', PBool False)])])])
        PNone None True (fresh dev_store)))) = [PBool True]"
  by (simp add: eval_defs)

section \<open>The reserved key in the data of a call\<close>

text \<open>
  When the flag handed to \<^verbatim>\<open>_set_data_to_obj\<close> is falsy, the pop runs and no call
  writes the reserved key.
\<close>

lemma reserved_key_popped:
  "\<not> truthy fm \<Longrightarrow>
   \<forall>c \<in> set (new_calls st (snd (set_data_to_obj dp self (PDict items) ident src fm key en st))).
     ''DYNACONF_MERGE'' \<notin> set (call_keys c)"
  using keys_dict_del [of "''DYNACONF_MERGE''" "rekey (upperfy dp) items"]
  by (auto simp: set_data_to_obj_calls Let_def pop_merge_def map_of_dict_del
           split: option.splits)

text \<open>
  Claim C2 fails on the code. The source has a truthy top-level flag and the block
  \<^verbatim>\<open>development\<close> has the reserved key: the \<^verbatim>\<open>or\<close> of
  \<^verbatim>\<open>file_merge or data.pop("DYNACONF_MERGE", False)\<close> does not evaluate the pop, and
  the update call writes \<^verbatim>\<open>DYNACONF_MERGE\<close> as a configuration value.
\<close>

theorem reserved_key_reaches_sink:
  "calls (snd (load (dict_collab [(''settings.toml'', ''text'')] [''development''])
        (table_loader ''development''
           [(''text'', PDict [(''dynaconf_merge'', PBool True),
                              (''development'', PDict [(''A'', PInt 1),
                                                       (''dynaconf_merge'', PBool True)])])])
        PNone None True (fresh dev_store))) =
   [Update [(''A'', PInt 1), (''DYNACONF_MERGE'', PBool True)] ''toml'' False (PBool True)]"
  by (simp add: eval_defs)

section \<open>The scenario of the spec\<close>

text \<open>
  Claim C3, as the code has it. The source \<^verbatim>\<open>settings.toml\<close> parses to
  \<^verbatim>\<open>{development: {A: 1, dynaconf_merge: true}, other: {A: 2}}\<close>, the default
  environment is \<^verbatim>\<open>development\<close> and the environment list is
  \<^verbatim>\<open>["default", "development"]\<close>. Called in silent mode and without a key filter
  (the defaults of \<^verbatim>\<open>load\<close>), \<^verbatim>\<open>load\<close> returns normally and makes exactly one
  call on the settings object: an update with data \<^verbatim>\<open>{A: 1}\<close>, identifier
  \<^verbatim>\<open>toml\<close>, not secret, merge \<^verbatim>\<open>True\<close>. This holds for every prefix and
  whatever the update does to the store.
\<close>

theorem scenario_silent:
  "fst (load ((dict_collab [(''settings.toml'', ''text'')] [''default'', ''development''])
               \<lparr>obj_update := upd\<rparr>)
          (table_loader ''development'' [(''text'', scenario_source)])
          PNone None True (fresh (scenario_store p))) = Inr () \<and>
   calls (snd (load ((dict_collab [(''settings.toml'', ''text'')] [''default'', ''development''])
                      \<lparr>obj_update := upd\<rparr>)
          (table_loader ''development'' [(''text'', scenario_source)])
          PNone None True (fresh (scenario_store p)))) =
     [Update [(''A'', PInt 1)] ''toml'' False (PBool True)]"
  by (simp add: eval_defs scenario_source_def scenario_store_def)

text \<open>
  Claim C3 without the restriction to silent mode fails: the source has no block
  \<^verbatim>\<open>default\<close>, and with the default environment \<^verbatim>\<open>development\<close> and the prefix
  \<^verbatim>\<open>DYNACONF\<close> the name \<^verbatim>\<open>default\<close> is not a base environment. In strict mode
  \<^verbatim>\<open>load\<close> raises \<^verbatim>\<open>KeyError\<close> at the first environment of the list, before any
  call on the settings object.
\<close>

theorem scenario_strict:
  "load (dict_collab [(''settings.toml'', ''text'')] [''default'', ''development''])
          (table_loader ''development'' [(''text'', scenario_source)])
          PNone None False (fresh (scenario_store ''DYNACONF'')) =
   (Inl (KeyError ''toml_loader: default env notdefined in settings.toml''),
    (fresh (scenario_store ''DYNACONF''))
      \<lparr>logs := [Debug ''toml_loader: settings.toml''], loaded_files := [''settings.toml'']\<rparr>)"
  by (simp add: eval_defs scenario_source_def scenario_store_def)

section \<open>Environments that a source does not define\<close>

lemma load_env_absent:
  assumes "map_of file_data (str_lower e) = None"
  shows "load_env dp self src file_data fm bases silent key e st =
           (if str_lower e \<in> set bases then (Inr (), st)
            else if silent
              then (Inr (), st\<lparr>logs := logs st @ [Warning (env_message self (str_lower e) src)]\<rparr>)
              else (Inl (KeyError (env_message self (str_lower e) src)), st))"
  using assms by (simp add: load_env_def Let_def)

lemma load_envs_append:
  "load_envs dp self src fd fm bases silent key (es1 @ es2) st =
     (case load_envs dp self src fd fm bases silent key es1 st of
        (Inl err, st1) \<Rightarrow> (Inl err, st1)
      | (Inr u, st1) \<Rightarrow> load_envs dp self src fd fm bases silent key es2 st1)"
  by (induction es1 arbitrary: st) (auto split: prod.splits sum.splits)

lemma env_message_names:
  "sublist (base_identifier self) (env_message self en src) \<and>
   sublist en (env_message self en src) \<and>
   sublist src (env_message self en src)"
proof -
  have "sublist (base_identifier self) (env_message self en src)"
    unfolding env_message_def sublist_def
    by (rule exI [of _ "[]"]) auto
  moreover have "sublist en (env_message self en src)"
    unfolding env_message_def sublist_def
    by (rule exI [of _ "base_identifier self @ ''_loader: ''"]) auto
  moreover have "sublist src (env_message self en src)"
    unfolding env_message_def sublist_def
    by (rule exI [of _ "base_identifier self @ ''_loader: '' @ en @ '' env not'' @
                        ''defined in ''"],
        rule exI [of _ "[]"]) simp
  ultimately show ?thesis by simp
qed

lemma base_envs_strings:
  assumes "obj_get dp s ''DEFAULT_ENV_FOR_DYNACONF'' = Some (PStr d)"
    and "py_or (case obj_get dp s ''ENVVAR_PREFIX_FOR_DYNACONF'' of
                  None \<Rightarrow> PNone | Some v \<Rightarrow> v) (PStr '''') = PStr p"
  shows "base_envs dp s =
           Inr [str_lower p, str_lower d, ''development'', ''dynaconf'', ''global'']"
  using assms by (simp add: base_envs_def get_lower_def)

text \<open>
  Claim C4. \<^verbatim>\<open>_load_all_envs\<close> handles a source whose data is a mapping, with the
  default environment \<open>d\<close> and the prefix \<open>p\<close> (the empty string when the store has
  none) read from the store, so that \<^verbatim>\<open>base_envs\<close> is the lower-cased prefix, the
  lower-cased default environment, \<^verbatim>\<open>development\<close>, \<^verbatim>\<open>dynaconf\<close> and
  \<^verbatim>\<open>global\<close>. Let \<open>e\<close> be any name of the environment list, after the names
  \<open>es1\<close> and before the names \<open>es2\<close>, whose lower-cased form is not a key of the
  source's lower-cased data. If the rounds for \<open>es1\<close> raise, that is the outcome.
  Otherwise, with the settings object \<open>st1\<close> they leave: when the lower-cased name is
  one of the base environments, the loop goes on with \<open>es2\<close> from \<open>st1\<close> as it is
  (no warning, no call); when it is not, in silent mode the loop goes on with \<open>es2\<close>
  from \<open>st1\<close> with one warning added to the log and nothing else changed, and in strict
  mode the outcome is \<^verbatim>\<open>KeyError\<close> with the same message, at \<open>st1\<close>. The message
  contains the loader's identifier, the environment name and the source identifier.
\<close>

theorem undefined_environment:
  assumes "obj_get dp (store st) ''DEFAULT_ENV_FOR_DYNACONF'' = Some (PStr d)"
    and "py_or (case obj_get dp (store st) ''ENVVAR_PREFIX_FOR_DYNACONF'' of
                  None \<Rightarrow> PNone | Some v \<Rightarrow> v) (PStr '''') = PStr p"
    and "build_env_list dp (store st) (env self) = es1 @ e # es2"
    and "map_of (rekey str_lower items) (str_lower e) = None"
  shows "load_source dp self silent key src (PDict items) st =
           (let file_data = rekey str_lower items;
                file_merge = (case map_of file_data ''dynaconf_merge'' of
                                None \<Rightarrow> PNone | Some v \<Rightarrow> v);
                bases = [str_lower p, str_lower d, ''development'', ''dynaconf'', ''global''];
                message = env_message self (str_lower e) src
            in case load_envs dp self src file_data file_merge bases silent key es1 st of
                 (Inl err, st1) \<Rightarrow> (Inl err, st1)
               | (Inr u, st1) \<Rightarrow>
                   if str_lower e \<in> set bases
                   then load_envs dp self src file_data file_merge bases silent key es2 st1
                   else if silent
                   then load_envs dp self src file_data file_merge bases silent key es2
                          (st1\<lparr>logs := logs st1 @ [Warning message]\<rparr>)
                   else (Inl (KeyError message), st1))
         \<and> sublist (base_identifier self) (env_message self (str_lower e) src)
         \<and> sublist (str_lower e) (env_message self (str_lower e) src)
         \<and> sublist src (env_message self (str_lower e) src)"
proof -
  let ?fd = "rekey str_lower items"
  let ?fm = "case map_of ?fd ''dynaconf_merge'' of None \<Rightarrow> PNone | Some v \<Rightarrow> v"
  let ?bases = "[str_lower p, str_lower d, ''development'', ''dynaconf'', ''global'']"
  have src: "load_source dp self silent key src (PDict items) st =
               load_envs dp self src ?fd ?fm ?bases silent key (es1 @ e # es2) st"
    using base_envs_strings [OF assms(1,2)] assms(3)
    by (simp add: load_source_def Let_def)
  have round: "load_envs dp self src ?fd ?fm ?bases silent key (e # es2) st1 =
          (if str_lower e \<in> set ?bases
           then load_envs dp self src ?fd ?fm ?bases silent key es2 st1
           else if silent
           then load_envs dp self src ?fd ?fm ?bases silent key es2
                  (st1\<lparr>logs := logs st1 @ [Warning (env_message self (str_lower e) src)]\<rparr>)
           else (Inl (KeyError (env_message self (str_lower e) src)), st1))" for st1
    by (simp add: load_env_absent [OF assms(4)])
  have "load_source dp self silent key src (PDict items) st =
          (case load_envs dp self src ?fd ?fm ?bases silent key es1 st of
             (Inl err, st1) \<Rightarrow> (Inl err, st1)
           | (Inr u, st1) \<Rightarrow>
               if str_lower e \<in> set ?bases
               then load_envs dp self src ?fd ?fm ?bases silent key es2 st1
               else if silent
               then load_envs dp self src ?fd ?fm ?bases silent key es2
                      (st1\<lparr>logs := logs st1 @ [Warning (env_message self (str_lower e) src)]\<rparr>)
               else (Inl (KeyError (env_message self (str_lower e) src)), st1))"
    unfolding src load_envs_append
    by (simp only: round split: prod.splits sum.splits)
  then show ?thesis
    using env_message_names [of self "str_lower e" src] by (simp add: Let_def)
qed

text \<open>
  A source that defines \<^verbatim>\<open>Other\<close> only, with the environment list
  \<^verbatim>\<open>["GLOBAL", "production", "Other"]\<close>. In silent mode \<^verbatim>\<open>GLOBAL\<close> is passed
  over without a record, \<^verbatim>\<open>production\<close> leaves a warning and the block
  \<^verbatim>\<open>other\<close> is loaded; in strict mode \<^verbatim>\<open>production\<close> raises.
\<close>

theorem undefined_environment_witness:
  "load_source (dict_collab [] [''GLOBAL'', ''production'', ''Other''])
     (table_loader ''development'' []) True None ''settings.toml'' (PDict other_source)
     (fresh dev_store) =
   (Inr (),
    \<lparr>store = dev_store @ [(''A'', PInt 2)],
     calls = [Update [(''A'', PInt 2)] ''toml_other'' False (PBool False)],
     logs = [Warning ''toml_loader: production env notdefined in settings.toml'',
             DebugLoad ''toml'' ''settings.toml'' (Some ''other'') (FullData [(''A'', PInt 2)])],
     loaded_files = []\<rparr>) \<and>
   load_source (dict_collab [] [''GLOBAL'', ''production'', ''Other''])
     (table_loader ''development'' []) False None ''settings.toml'' (PDict other_source)
     (fresh dev_store) =
   (Inl (KeyError ''toml_loader: production env notdefined in settings.toml''),
    fresh dev_store)"
  using
    undefined_environment [where dp = "dict_collab [] [''GLOBAL'', ''production'', ''Other'']"
      and self = "table_loader ''development'' []" and st = "fresh dev_store"
      and d = "''development''" and p = "''DYNACONF''"
      and ?es1.0 = "[]" and e = "''GLOBAL''" and ?es2.0 = "[''production'', ''Other'']"
      and items = other_source and silent = True and key = None and src = "''settings.toml''"]
    undefined_environment [where dp = "dict_collab [] [''GLOBAL'', ''production'', ''Other'']"
      and self = "table_loader ''development'' []" and st = "fresh dev_store"
      and d = "''development''" and p = "''DYNACONF''"
      and ?es1.0 = "[''GLOBAL'']" and e = "''production''" and ?es2.0 = "[''Other'']"
      and items = other_source and silent = True and key = None and src = "''settings.toml''"]
    undefined_environment [where dp = "dict_collab [] [''GLOBAL'', ''production'', ''Other'']"
      and self = "table_loader ''development'' []" and st = "fresh dev_store"
      and d = "''development''" and p = "''DYNACONF''"
      and ?es1.0 = "[''GLOBAL'']" and e = "''production''" and ?es2.0 = "[''Other'']"
      and items = other_source and silent = False and key = None and src = "''settings.toml''"]
  by (simp add: eval_defs other_source_def)


section \<open>The single-key filter\<close>

text \<open>
  Claim C7, as the code has it. For a data mapping and a requested key (a non-empty
  string that \<^verbatim>\<open>upperfy\<close> maps to a non-empty string) other than the reserved merge
  key, \<^verbatim>\<open>_set_data_to_obj\<close> raises nothing. The key is normalized by the same
  \<^verbatim>\<open>upperfy\<close> as the keys of the data; if it is a key of the normalized mapping,
  exactly one set call is made, for the normalized key and its value; if it is not, no
  call is made. The set call carries the identifier, the secrecy flag and the merge flag
  that the one update call made without the filter carries.
\<close>

theorem single_key_filter:
  assumes "k \<noteq> []" and "upperfy dp k \<noteq> []" and "upperfy dp k \<noteq> ''DYNACONF_MERGE''"
  shows "fst (set_data_to_obj dp self (PDict items) ident src fm (Some k) en st) = Inr () \<and>
         new_calls st (snd (set_data_to_obj dp self (PDict items) ident src fm (Some k) en st)) =
           (case map_of (rekey (upperfy dp) items) (upperfy dp k) of
              Some v \<Rightarrow> [SetKey (upperfy dp k) v ident (sublist ''secret'' src)
                          (fst (pop_merge fm (rekey (upperfy dp) items)))]
            | None \<Rightarrow> []) \<and>
         map call_identifier
           (new_calls st (snd (set_data_to_obj dp self (PDict items) ident src fm None en st))) =
           [ident] \<and>
         map call_secret
           (new_calls st (snd (set_data_to_obj dp self (PDict items) ident src fm None en st))) =
           [sublist ''secret'' src] \<and>
         map call_merge
           (new_calls st (snd (set_data_to_obj dp self (PDict items) ident src fm None en st))) =
           [fst (pop_merge fm (rekey (upperfy dp) items))]"
proof -
  have look: "map_of (snd (pop_merge fm (rekey (upperfy dp) items))) (upperfy dp k) =
              map_of (rekey (upperfy dp) items) (upperfy dp k)"
    using assms(3) by (simp add: pop_merge_def map_of_dict_del)
  have "fst (set_data_to_obj dp self (PDict items) ident src fm (Some k) en st) = Inr ()"
    using assms(1,2)
    by (simp add: set_data_to_obj_def key_truthy_def Let_def split: option.splits)
  then show ?thesis
    using assms(1,2)
    by (simp add: set_data_to_obj_calls key_truthy_def Let_def look split: option.splits)
qed

text \<open>
  The keys \<^verbatim>\<open>x\<close> and \<^verbatim>\<open>y\<close> on the block \<^verbatim>\<open>{x: 1, Z: 3}\<close> of a secret source:
  one set call for \<^verbatim>\<open>X\<close>, none for \<^verbatim>\<open>Y\<close>, no error; without the filter, one
  update call with the same tags.
\<close>

theorem single_key_filter_witness:
  "set_data_to_obj (dict_collab [] []) (table_loader ''development'' [])
     (PDict [(''x'', PInt 1), (''Z'', PInt 3)]) ''toml'' ''.secrets.toml'' PNone (Some ''x'')
     (Some ''development'') (fresh dev_store) =
     (Inr (), (fresh dev_store)
        \<lparr>store := dev_store @ [(''X'', PInt 1)],
         calls := [SetKey ''X'' (PInt 1) ''toml'' True (PBool False)],
         logs := [DebugLoad ''toml'' ''.secrets.toml'' (Some ''development'')
                    (KeysOnly [''X'', ''Z''])]\<rparr>) \<and>
   set_data_to_obj (dict_collab [] []) (table_loader ''development'' [])
     (PDict [(''x'', PInt 1), (''Z'', PInt 3)]) ''toml'' ''.secrets.toml'' PNone (Some ''y'')
     (Some ''development'') (fresh dev_store) =
     (Inr (), (fresh dev_store)
        \<lparr>logs := [DebugLoad ''toml'' ''.secrets.toml'' (Some ''development'')
                    (KeysOnly [''X'', ''Z''])]\<rparr>) \<and>
   calls (snd (set_data_to_obj (dict_collab [] []) (table_loader ''development'' [])
     (PDict [(''x'', PInt 1), (''Z'', PInt 3)]) ''toml'' ''.secrets.toml'' PNone None
     (Some ''development'') (fresh dev_store))) =
     [Update [(''X'', PInt 1), (''Z'', PInt 3)] ''toml'' True (PBool False)]"
  using
    single_key_filter [where k = "''x''" and dp = "dict_collab [] []"
      and self = "table_loader ''development'' []"
      and items = "[(''x'', PInt 1), (''Z'', PInt 3)]" and ident = "''toml''"
      and src = "''.secrets.toml''" and fm = PNone and en = "Some ''development''"
      and st = "fresh dev_store"]
    single_key_filter [where k = "''y''" and dp = "dict_collab [] []"
      and self = "table_loader ''development'' []"
      and items = "[(''x'', PInt 1), (''Z'', PInt 3)]" and ident = "''toml''"
      and src = "''.secrets.toml''" and fm = PNone and en = "Some ''development''"
      and st = "fresh dev_store"]
  by (simp add: eval_defs)

text \<open>
  Claim C7 as the spec states it fails for the reserved key: the normalized key
  \<^verbatim>\<open>DYNACONF_MERGE\<close> is a key of the normalized mapping, and no set call is made,
  because the key is popped as the merge flag before the test \<^verbatim>\<open>key in data\<close>.
\<close>

theorem reserved_key_not_set:
  "map_of (rekey upperfy_spec [(''a'', PInt 1), (''dynaconf_merge'', PBool True)])
     (upperfy_spec ''dynaconf_merge'') = Some (PBool True) \<and>
   set_data_to_obj (dict_collab [] []) (table_loader ''development'' [])
     (PDict [(''a'', PInt 1), (''dynaconf_merge'', PBool True)]) ''toml'' ''settings.toml''
     PNone (Some ''dynaconf_merge'') (Some ''development'') (fresh dev_store) =
   (Inr (), (fresh dev_store)
      \<lparr>logs := [DebugLoad ''toml'' ''settings.toml'' (Some ''development'')
                  (FullData [(''A'', PInt 1), (''DYNACONF_MERGE'', PBool True)])]\<rparr>)"
  by (simp add: eval_defs)


section \<open>A falsy key filter\<close>







section \<open>The mode of \<^verbatim>\<open>load\<close>\<close>

lemma source_loop_store:
  "store (snd (source_loop dp self files data st)) = store st"
  by (induction dp self files data st rule: source_loop.induct)
     (auto simp: Let_def split: pyval.splits sum.splits error.splits)

lemma get_source_date_store:
  "get_source_date dp self files st = (r, st1) \<Longrightarrow> store st1 = store st"
  using source_loop_store [of dp self files "[]" st] by (simp add: get_source_date_def)

text \<open>
  Claim C9. Whenever the value of \<^verbatim>\<open>ENVLESS_MODE_FOR_DYNACONF\<close> in the store is
  anything but the boolean \<^verbatim>\<open>True\<close> (absent, \<^verbatim>\<open>False\<close>, the string
  \<^verbatim>\<open>"true"\<close>, the integer 1, ...), \<^verbatim>\<open>load\<close> with a specifier that resolves to the
  list \<open>files\<close> reads the sources and hands them to \<^verbatim>\<open>_load_all_envs\<close>.
\<close>

theorem envless_only_for_True:
  assumes "obj_get dp (store st) ''ENVLESS_MODE_FOR_DYNACONF'' \<noteq> Some (PBool True)"
    and "truthy filename"
    and "source_files dp self filename = Inr files"
  shows "load dp self filename key silent st =
           (case get_source_date dp self files st of
              (Inl e, st1) \<Rightarrow> (Inl e, st1)
            | (Inr source_data, st1) \<Rightarrow> load_all_envs dp self source_data silent key st1)"
  using assms
  by (auto simp: load_def py_or_def Let_def dest: get_source_date_store
           split: prod.splits sum.splits)

text \<open>
  With the string \<^verbatim>\<open>"true"\<close> and with the integer 1 in the store, the source of the
  scenario is partitioned: the one call is the update for the block
  \<^verbatim>\<open>development\<close>.
\<close>

theorem envless_only_for_True_witness:
  "calls (snd (load (dict_collab [(''settings.toml'', ''text'')] [''development''])
          (table_loader ''development'' [(''text'', scenario_source)])
          (PStr ''settings.toml'') None True
          (fresh ((''ENVLESS_MODE_FOR_DYNACONF'', PStr ''true'') # dev_store)))) =
     [Update [(''A'', PInt 1)] ''toml'' False (PBool True)] \<and>
   calls (snd (load (dict_collab [(''settings.toml'', ''text'')] [''development''])
          (table_loader ''development'' [(''text'', scenario_source)])
          (PStr ''settings.toml'') None True
          (fresh ((''ENVLESS_MODE_FOR_DYNACONF'', PInt 1) # dev_store)))) =
     [Update [(''A'', PInt 1)] ''toml'' False (PBool True)]"
  using
    envless_only_for_True [where dp = "dict_collab [(''settings.toml'', ''text'')] [''development'']"
      and self = "table_loader ''development'' [(''text'', scenario_source)]"
      and filename = "PStr ''settings.toml''" and files = "[PStr ''settings.toml'']"
      and key = None and silent = True
      and st = "fresh ((''ENVLESS_MODE_FOR_DYNACONF'', PStr ''true'') # dev_store)"]
    envless_only_for_True [where dp = "dict_collab [(''settings.toml'', ''text'')] [''development'']"
      and self = "table_loader ''development'' [(''text'', scenario_source)]"
      and filename = "PStr ''settings.toml''" and files = "[PStr ''settings.toml'']"
      and key = None and silent = True
      and st = "fresh ((''ENVLESS_MODE_FOR_DYNACONF'', PInt 1) # dev_store)"]
  by (simp add: eval_defs scenario_source_def)

text \<open>With the boolean \<^verbatim>\<open>True\<close> the sources go to \<^verbatim>\<open>_envless_load\<close>.\<close>

lemma envless_for_True:
  assumes "obj_get dp (store st) ''ENVLESS_MODE_FOR_DYNACONF'' = Some (PBool True)"
    and "truthy filename"
    and "source_files dp self filename = Inr files"
  shows "load dp self filename key silent st =
           (case get_source_date dp self files st of
              (Inl e, st1) \<Rightarrow> (Inl e, st1)
            | (Inr source_data, st1) \<Rightarrow> envless_load dp self source_data silent key st1)"
  using assms
  by (auto simp: load_def py_or_def Let_def dest: get_source_date_store
           split: prod.splits sum.splits)

lemma envless_scenario:
  "calls (snd (load (dict_collab [(''settings.toml'', ''text'')] [''development''])
          (table_loader ''development'' [(''text'', scenario_source)])
          (PStr ''settings.toml'') None True
          (fresh ((''ENVLESS_MODE_FOR_DYNACONF'', PBool True) # dev_store)))) =
     [Update [(''DEVELOPMENT'', PDict [(''A'', PInt 1), (''dynaconf_merge'', PBool True)]),
              (''OTHER'', PDict [(''A'', PInt 2)])] ''toml'' False (PBool False)]"
  by (simp add: eval_defs scenario_source_def)

section \<open>The source identifiers of \<^verbatim>\<open>load\<close>\<close>

lemma all_endswith_strs:
  "all_endswith (map PStr cands) exts = Inr (\<forall>c \<in> set cands. endswith c exts)"
  by (simp add: all_endswith_def list_all_iff)

lemma load_list:
  "xs \<noteq> [] \<Longrightarrow> load dp self (PList xs) key silent st =
     (case get_source_date dp self xs st of
        (Inl e, st1) \<Rightarrow> (Inl e, st1)
      | (Inr source_data, st1) \<Rightarrow>
          (if obj_get dp (store st1) ''ENVLESS_MODE_FOR_DYNACONF'' = Some (PBool True)
           then envless_load dp self source_data silent key st1
           else load_all_envs dp self source_data silent key st1))"
  by (simp add: load_def py_or_def source_files_def)

lemma source_files_str:
  "ensure_a_list dp (PStr s) = map PStr cands \<Longrightarrow>
   source_files dp self (PStr s) =
     Inr (if \<forall>c \<in> set cands. endswith c (extensions self) then map PStr cands else [PStr s])"
  by (auto simp: source_files_def all_endswith_strs Let_def split: bool.splits)

lemma load_str:
  "s \<noteq> [] \<Longrightarrow> ensure_a_list dp (PStr s) = map PStr cands \<Longrightarrow>
   load dp self (PStr s) key silent st =
     (case get_source_date dp self
             (if \<forall>c \<in> set cands. endswith c (extensions self)
              then map PStr cands else [PStr s]) st of
        (Inl e, st1) \<Rightarrow> (Inl e, st1)
      | (Inr source_data, st1) \<Rightarrow>
          (if obj_get dp (store st1) ''ENVLESS_MODE_FOR_DYNACONF'' = Some (PBool True)
           then envless_load dp self source_data silent key st1
           else load_all_envs dp self source_data silent key st1))"
  by (simp add: load_def py_or_def source_files_str Let_def del: if_split cong: if_cong)

lemma load_no_specifier:
  "\<not> truthy filename \<Longrightarrow>
   obj_get dp (store st) (str_upper (base_identifier self)) = None \<Longrightarrow>
   load dp self filename key silent st = (Inr (), st)"
  by (simp add: load_def py_or_def)

text \<open>
  Claim C5. For a non-empty string specifier that \<^verbatim>\<open>ensure_a_list\<close> splits into the
  candidate strings \<open>cands\<close>: when every candidate ends with one of the loader's
  extensions, \<^verbatim>\<open>load\<close> does what it does for the explicit sequence of the candidates
  (nothing at all when there is no candidate); otherwise it does what it does for the
  sequence holding the whole specifier alone. When the specifier is falsy and the store
  has no value under the upper-cased identifier of the loader, \<^verbatim>\<open>load\<close> returns with
  the settings object untouched: no call, no file read, no log record.
\<close>

theorem source_resolution:
  "(s \<noteq> [] \<and> ensure_a_list dp (PStr s) = map PStr cands \<longrightarrow>
      load dp self (PStr s) key silent st =
        (if \<forall>c \<in> set cands. endswith c (extensions self)
         then (if cands = [] then (Inr (), st)
               else load dp self (PList (map PStr cands)) key silent st)
         else load dp self (PList [PStr s]) key silent st)) \<and>
   (\<not> truthy filename \<and>
    obj_get dp (store st) (str_upper (base_identifier self)) = None \<longrightarrow>
      load dp self filename key silent st = (Inr (), st))"
proof (intro conjI impI)
  assume a: "s \<noteq> [] \<and> ensure_a_list dp (PStr s) = map PStr cands"
  show "load dp self (PStr s) key silent st =
        (if \<forall>c \<in> set cands. endswith c (extensions self)
         then (if cands = [] then (Inr (), st)
               else load dp self (PList (map PStr cands)) key silent st)
         else load dp self (PList [PStr s]) key silent st)"
  proof (cases "cands = []")
    case True
    with a show ?thesis
      by (simp add: load_str get_source_date_def)
  next
    case False
    with a show ?thesis
      by (simp add: load_str load_list)
  qed
next
  assume "\<not> truthy filename \<and>
    obj_get dp (store st) (str_upper (base_identifier self)) = None"
  then show "load dp self filename key silent st = (Inr (), st)"
    by (simp add: load_no_specifier)
qed

text \<open>
  Two files in one specifier are two sources, read in order; a specifier with a
  candidate that is no file name is one inline source; no specifier and no default
  leaves the settings object alone.
\<close>

theorem source_resolution_witness:
  "load (dict_collab [(''a.toml'', ''ta''), (''b.toml'', ''tb'')] [''development''])
     (table_loader ''development''
        [(''ta'', PDict [(''development'', PDict [(''A'', PInt 1)])]),
         (''tb'', PDict [(''development'', PDict [(''B'', PInt 2)])])])
     (PStr ''a.toml,b.toml'') None True (fresh dev_store) =
   (Inr (),
    \<lparr>store = dev_store @ [(''A'', PInt 1), (''B'', PInt 2)],
     calls = [Update [(''A'', PInt 1)] ''toml'' False (PBool False),
              Update [(''B'', PInt 2)] ''toml'' False (PBool False)],
     logs = [Debug ''toml_loader: a.toml'', Debug ''toml_loader: b.toml'',
             DebugLoad ''toml'' ''a.toml'' (Some ''development'') (FullData [(''A'', PInt 1)]),
             DebugLoad ''toml'' ''b.toml'' (Some ''development'') (FullData [(''B'', PInt 2)])],
     loaded_files = [''a.toml'', ''b.toml'']\<rparr>) \<and>
   load (dict_collab [] [''development''])
     (table_loader ''development''
        [(''a.toml,x = 1'', PDict [(''development'', PDict [(''X'', PInt 1)])])])
     (PStr ''a.toml,x = 1'') None True (fresh dev_store) =
   (Inr (),
    \<lparr>store = dev_store @ [(''X'', PInt 1)],
     calls = [Update [(''X'', PInt 1)] ''toml'' False (PBool False)],
     logs = [DebugLoad ''toml'' ''a.toml,x = 1'' (Some ''development'')
               (FullData [(''X'', PInt 1)])],
     loaded_files = []\<rparr>) \<and>
   load (dict_collab [(''a.toml'', ''ta'')] [''development''])
     (table_loader ''development'' [(''ta'', PDict [(''development'', PDict [(''A'', PInt 1)])])])
     PNone None True (fresh []) = (Inr (), fresh [])"
  using
    source_resolution [where s = "''a.toml,b.toml''" and cands = "[''a.toml'', ''b.toml'']"
      and dp = "dict_collab [(''a.toml'', ''ta''), (''b.toml'', ''tb'')] [''development'']"
      and self = "table_loader ''development''
        [(''ta'', PDict [(''development'', PDict [(''A'', PInt 1)])]),
         (''tb'', PDict [(''development'', PDict [(''B'', PInt 2)])])]"
      and key = None and silent = True and st = "fresh dev_store" and filename = PNone]
    source_resolution [where s = "''a.toml,x = 1''" and cands = "[''a.toml'', ''x = 1'']"
      and dp = "dict_collab [] [''development'']"
      and self = "table_loader ''development''
        [(''a.toml,x = 1'', PDict [(''development'', PDict [(''X'', PInt 1)])])]"
      and key = None and silent = True and st = "fresh dev_store" and filename = PNone]
    source_resolution [where s = "''a.toml''" and cands = "[''a.toml'']"
      and dp = "dict_collab [(''a.toml'', ''ta'')] [''development'']"
      and self = "table_loader ''development''
        [(''ta'', PDict [(''development'', PDict [(''A'', PInt 1)])])]"
      and key = None and silent = True and st = "fresh []" and filename = PNone]
  by (simp add: eval_defs)

section \<open>The source reader\<close>

lemma filter_neq_absent: "a \<notin> set xs \<Longrightarrow> filter (\<lambda>y. y \<noteq> a) xs = xs"
  by (induction xs) auto

lemma first_occurrences_distinct: "distinct xs \<Longrightarrow> first_occurrences xs = xs"
  by (induction xs) (simp_all add: filter_neq_absent)

lemma dict_set_new: "k \<notin> set (map fst d) \<Longrightarrow> dict_set d k v = d @ [(k, v)]"
  by (induction d k v rule: dict_set.induct) auto

lemma dict_set_same:
  "k \<in> set (map fst d) \<Longrightarrow> \<forall>kv \<in> set d. fst kv = k \<longrightarrow> snd kv = v \<Longrightarrow> dict_set d k v = d"
  by (induction d k v rule: dict_set.induct) auto

lemma source_loop_fst_cong:
  "store st = store st' \<Longrightarrow>
   fst (source_loop dp self files data st) = fst (source_loop dp self files data st')"
proof (induction files arbitrary: data st st')
  case Nil
  show ?case by simp
next
  case (Cons f files)
  show ?case
    using Cons.prems
    by (auto simp: Let_def split: pyval.splits sum.splits error.splits intro!: Cons.IH)
qed

lemma source_loop_step:
  "source_content dp self (store st) f = Inr c \<Longrightarrow>
   fst (source_loop dp self (PStr f # fs) data st) =
   fst (source_loop dp self fs
          (case c of Some v \<Rightarrow> if truthy v then dict_set data f v else data | None \<Rightarrow> data) st)"
  by (auto simp: source_content_def Let_def split: sum.splits error.splits if_splits
           intro!: source_loop_fst_cong)

lemma source_loop_result:
  assumes "\<forall>f \<in> set fs. \<forall>e. source_content dp self (store st) f \<noteq> Inl e"
    and "\<forall>kv \<in> set data. snd kv = content_of dp self (store st) (fst kv)"
  shows "fst (source_loop dp self (map PStr fs) data st) =
           Inr (data @ map (\<lambda>f. (f, content_of dp self (store st) f))
                  (first_occurrences
                     (filter (\<lambda>f. nonempty_source dp self (store st) f \<and>
                                   f \<notin> set (map fst data)) fs)))"
  using assms
proof (induction fs arbitrary: data)
  case Nil
  then show ?case by simp
next
  case (Cons f fs)
  let ?s = "store st"
  obtain c where c: "source_content dp self ?s f = Inr c"
    using Cons.prems(1) by (cases "source_content dp self ?s f") auto
  have rest: "\<forall>f \<in> set fs. \<forall>e. source_content dp self ?s f \<noteq> Inl e"
    using Cons.prems(1) by simp
  note IH = Cons.IH [OF rest]
  note step = source_loop_step [OF c, of "map PStr fs" data]
  show ?case
  proof (cases "nonempty_source dp self ?s f")
    case False
    then have d: "(case c of Some v \<Rightarrow> if truthy v then dict_set data f v else data
                   | None \<Rightarrow> data) = data"
      using c by (auto simp: nonempty_source_def split: option.splits)
    show ?thesis
      using IH [OF Cons.prems(2)] False step by (simp add: d del: source_loop.simps)
  next
    case True
    then have d: "(case c of Some v \<Rightarrow> if truthy v then dict_set data f v else data
                   | None \<Rightarrow> data) = dict_set data f (content_of dp self ?s f)"
      using c by (auto simp: nonempty_source_def content_of_def split: option.splits)
    show ?thesis
    proof (cases "f \<in> set (map fst data)")
      case in_data: True
      then have ds: "dict_set data f (content_of dp self ?s f) = data"
        using Cons.prems(2) by (intro dict_set_same) auto
      show ?thesis
        using IH [OF Cons.prems(2)] in_data step by (simp add: d ds del: source_loop.simps)
    next
      case new: False
      then have ds: "dict_set data f (content_of dp self ?s f) =
                     data @ [(f, content_of dp self ?s f)]"
        by (rule dict_set_new)
      have inv: "\<forall>kv \<in> set (data @ [(f, content_of dp self ?s f)]).
                   snd kv = content_of dp self ?s (fst kv)"
        using Cons.prems(2) by auto
      have flt: "filter (\<lambda>g. nonempty_source dp self ?s g \<and>
                      g \<notin> set (map fst (data @ [(f, content_of dp self ?s f)]))) fs
               = filter (\<lambda>y. y \<noteq> f)
                   (filter (\<lambda>g. nonempty_source dp self ?s g \<and> g \<notin> set (map fst data)) fs)"
        by (auto intro: filter_cong)
      have flt2: "filter (\<lambda>g. nonempty_source dp self ?s g \<and> g \<noteq> f \<and> g \<notin> fst ` set data) fs
                = filter (\<lambda>g. nonempty_source dp self ?s g \<and> g \<notin> fst ` set data \<and> g \<noteq> f) fs"
        by (rule filter_cong) auto
      show ?thesis
        using IH [OF inv] new True step by (simp add: d ds flt flt2 del: source_loop.simps)
    qed
  qed
qed


lemma source_loop_logs_mono:
  "set (logs st) \<subseteq> set (logs (snd (source_loop dp self files data st)))"
proof (induction files arbitrary: data st)
  case Nil
  show ?case by simp
next
  case (Cons f files)
  have sub: "set (logs st) \<subseteq> set (logs st') \<Longrightarrow>
             set (logs st) \<subseteq> set (logs (snd (source_loop dp self files d st')))" for st' d
    using Cons.IH [where data = d and st = st'] by blast
  show ?case
    by (auto simp: Let_def split: pyval.splits sum.splits error.splits intro!: sub [THEN subsetD])
qed

lemma source_loop_missing_logged:
  assumes "\<forall>f \<in> set fs. \<forall>e. source_content dp self s f \<noteq> Inl e"
    and "store st = s"
    and "f \<in> set fs"
    and "missing_file dp self s f"
  shows "Debug (base_identifier self @ ''_loader: '' @ f @ '' '' @ ''(Ignored, file not Found)'')
           \<in> set (logs (snd (source_loop dp self (map PStr fs) data st)))"
  using assms
proof (induction fs arbitrary: data st)
  case Nil
  then show ?case by simp
next
  case (Cons g fs)
  let ?m = "Debug (base_identifier self @ ''_loader: '' @ f @ '' '' @ ''(Ignored, file not Found)'')"
  have rest: "\<forall>f \<in> set fs. \<forall>e. source_content dp self s f \<noteq> Inl e"
    using Cons.prems(1) by simp
  show ?case
  proof (cases "f = g")
    case True
    have "?m \<in> set (logs (st\<lparr>logs := logs st @ [?m]\<rparr>))" by simp
    then have "?m \<in> set (logs (snd (source_loop dp self (map PStr fs) data
                 (st\<lparr>logs := logs st @ [?m]\<rparr>))))"
      using source_loop_logs_mono by blast
    then show ?thesis
      using True Cons.prems(2,4) by (simp add: missing_file_def)
  next
    case False
    then have mem: "f \<in> set fs" using Cons.prems(3) by simp
    define M where "M = ?m"
    have ih: "store st' = s \<Longrightarrow>
              M \<in> set (logs (snd (source_loop dp self (map PStr fs) d st')))" for d st'
      using Cons.IH [OF rest _ mem Cons.prems(4)] unfolding M_def by blast
    have ok: "\<forall>e. source_content dp self s g \<noteq> Inl e" using Cons.prems(1) by simp
    have "M \<in> set (logs (snd (source_loop dp self (map PStr (g # fs)) data st)))"
      using ok Cons.prems(2)
      by (auto simp: source_content_def Let_def split: sum.splits error.splits if_splits
               intro!: ih)
    then show ?thesis unfolding M_def .
  qed
qed

lemma first_occurrences_filter_distinct:
  "distinct fs \<Longrightarrow> first_occurrences (filter P fs) = filter P fs"
  by (simp add: first_occurrences_distinct)

text \<open>
  Claim C6. For a list of source identifiers none of which fails hard (no reader
  raises anything but the \<^verbatim>\<open>IOError\<close> of a missing file), \<^verbatim>\<open>get_source_date\<close>
  returns a mapping: its keys are exactly the sources with non-empty content, in the
  order of their first occurrence in the list, each with its parsed content. A missing
  file does not abort the loop, and the debug record that says it was ignored is in the
  log afterwards.
\<close>

theorem source_reader:
  assumes "\<forall>f \<in> set fs. \<forall>e. source_content dp self (store st) f \<noteq> Inl e"
  shows "fst (get_source_date dp self (map PStr fs) st) =
           Inr (map (\<lambda>f. (f, content_of dp self (store st) f))
                  (first_occurrences (filter (nonempty_source dp self (store st)) fs))) \<and>
         (\<forall>f \<in> set fs. missing_file dp self (store st) f \<longrightarrow>
            Debug (base_identifier self @ ''_loader: '' @ f @ '' '' @ ''(Ignored, file not Found)'')
              \<in> set (logs (snd (get_source_date dp self (map PStr fs) st))))"
  using source_loop_result [OF assms, of "[]"] source_loop_missing_logged [OF assms refl]
  by (simp add: get_source_date_def)

text \<open>
  A missing file, an empty file, an inline source and a source named twice: the
  mapping holds the three non-empty sources in the order of the list.
\<close>

theorem source_reader_witness:
  "get_source_date (dict_collab reader_files []) (table_loader ''development'' reader_parses)
     [PStr ''missing.toml'', PStr ''a.toml'', PStr ''empty.toml'', PStr ''inline'',
      PStr ''b.toml'', PStr ''a.toml''] (fresh dev_store) =
   (Inr [(''a.toml'', PDict [(''development'', PDict [(''A'', PInt 1)])]),
         (''inline'', PDict [(''development'', PDict [(''C'', PInt 3)])]),
         (''b.toml'', PDict [(''development'', PDict [(''B'', PInt 2)])])],
    (fresh dev_store)
      \<lparr>logs := [Debug ''toml_loader: missing.toml (Ignored, file not Found)'',
                Debug ''toml_loader: a.toml'',
                Debug ''toml_loader: empty.toml IS EMPTY'',
                Debug ''toml_loader: b.toml'',
                Debug ''toml_loader: a.toml''],
       loaded_files := [''a.toml'', ''empty.toml'', ''b.toml'', ''a.toml'']\<rparr>)"
  using source_reader [where dp = "dict_collab reader_files []"
      and self = "table_loader ''development'' reader_parses"
      and fs = "[''missing.toml'', ''a.toml'', ''empty.toml'', ''inline'', ''b.toml'', ''a.toml'']"
      and st = "fresh dev_store"]
  by (simp add: eval_defs reader_files_def reader_parses_def)

section \<open>Determinism\<close>

text \<open>
  Every function of the loader commutes with putting an earlier history in front:
  none of them reads the record of calls, the log or \<^verbatim>\<open>_loaded_files\<close>.
\<close>

lemma store_prepend [simp]: "store (prepend_history cs ls fs st) = store st"
  by (simp add: prepend_history_def)

lemma set_data_to_obj_prepend:
  "set_data_to_obj dp self data ident src fm key en (prepend_history cs ls fs st) =
   apsnd (prepend_history cs ls fs) (set_data_to_obj dp self data ident src fm key en st)"
  by (cases data)
     (simp_all add: set_data_to_obj_def prepend_history_def Let_def split: option.splits)

lemma envless_load_prepend:
  "envless_load dp self sd silent key (prepend_history cs ls fs st) =
   apsnd (prepend_history cs ls fs) (envless_load dp self sd silent key st)"
proof (induction sd arbitrary: st)
  case Nil
  show ?case by simp
next
  case (Cons a sd)
  obtain src fd where a: "a = (src, fd)" by (cases a)
  show ?case
    by (cases "set_data_to_obj dp self fd (base_identifier self) src PNone key None st")
       (auto simp: a set_data_to_obj_prepend Cons.IH split: sum.splits)
qed

lemma load_env_prepend:
  "load_env dp self src fd fm bases silent key e (prepend_history cs ls fs st) =
   apsnd (prepend_history cs ls fs) (load_env dp self src fd fm bases silent key e st)"
  by (simp add: load_env_def set_data_to_obj_prepend Let_def split: option.splits sum.splits)
     (simp add: prepend_history_def)

lemma load_envs_prepend:
  "load_envs dp self src fd fm bases silent key es (prepend_history cs ls fs st) =
   apsnd (prepend_history cs ls fs) (load_envs dp self src fd fm bases silent key es st)"
proof (induction es arbitrary: st)
  case Nil
  show ?case by simp
next
  case (Cons e es)
  show ?case
    by (cases "load_env dp self src fd fm bases silent key e st")
       (auto simp: load_env_prepend Cons.IH split: sum.splits)
qed

lemma load_source_prepend:
  "load_source dp self silent key src fd (prepend_history cs ls fs st) =
   apsnd (prepend_history cs ls fs) (load_source dp self silent key src fd st)"
  by (cases fd) (simp_all add: load_source_def load_envs_prepend Let_def split: sum.splits)

lemma load_all_envs_prepend:
  "load_all_envs dp self sd silent key (prepend_history cs ls fs st) =
   apsnd (prepend_history cs ls fs) (load_all_envs dp self sd silent key st)"
proof (induction sd arbitrary: st)
  case Nil
  show ?case by simp
next
  case (Cons a sd)
  obtain src fd where a: "a = (src, fd)" by (cases a)
  show ?case
    by (cases "load_source dp self silent key src fd st")
       (auto simp: a load_source_prepend Cons.IH split: sum.splits)
qed

lemma prepend_logs:
  "(prepend_history cs ls fs st)\<lparr>logs := logs (prepend_history cs ls fs st) @ xs\<rparr> =
   prepend_history cs ls fs (st\<lparr>logs := logs st @ xs\<rparr>)"
  by (simp add: prepend_history_def)

lemma prepend_loaded:
  "(prepend_history cs ls fs st)\<lparr>loaded_files := loaded_files (prepend_history cs ls fs st) @ xs\<rparr> =
   prepend_history cs ls fs (st\<lparr>loaded_files := loaded_files st @ xs\<rparr>)"
  by (simp add: prepend_history_def)

lemma source_loop_prepend:
  "source_loop dp self files data (prepend_history cs ls fs st) =
   apsnd (prepend_history cs ls fs) (source_loop dp self files data st)"
proof (induction files arbitrary: data st)
  case Nil
  show ?case by simp
next
  case (Cons f files)
  show ?case
    by (cases f)
       (simp_all add: Let_def prepend_logs prepend_loaded Cons.IH
          split: sum.splits error.splits)
qed

lemma get_source_date_prepend:
  "get_source_date dp self files (prepend_history cs ls fs st) =
   apsnd (prepend_history cs ls fs) (get_source_date dp self files st)"
  by (simp add: get_source_date_def source_loop_prepend)

lemma load_prepend:
  "load dp self filename key silent (prepend_history cs ls fs st) =
   apsnd (prepend_history cs ls fs) (load dp self filename key silent st)"
proof -
  let ?fn = "py_or filename
               (case obj_get dp (store st) (str_upper (base_identifier self)) of
                  None \<Rightarrow> PNone | Some v \<Rightarrow> v)"
  show ?thesis
  proof (cases "truthy ?fn")
    case False
    then show ?thesis by (simp add: load_def)
  next
    case True
    show ?thesis
    proof (cases "source_files dp self ?fn")
      case (Inl e)
      with True show ?thesis by (simp add: load_def)
    next
      case (Inr files)
      obtain r st1 where g: "get_source_date dp self files st = (r, st1)"
        by (cases "get_source_date dp self files st")
      show ?thesis
        using True Inr g
        by (cases r)
           (simp_all add: load_def get_source_date_prepend envless_load_prepend
              load_all_envs_prepend)
    qed
  qed
qed

lemma settings_as_history:
  "st = prepend_history (calls st) (logs st) (loaded_files st) (fresh (store st))"
  by (simp add: prepend_history_def fresh_def)

lemma load_from_fresh:
  "load dp self filename key silent st =
   apsnd (prepend_history (calls st) (logs st) (loaded_files st))
     (load dp self filename key silent (fresh (store st)))"
  using load_prepend [of dp self filename key silent "calls st" "logs st" "loaded_files st"
      "fresh (store st)"]
  by (simp add: settings_as_history [symmetric])

lemma new_calls_prepend: "new_calls st (prepend_history (calls st) ls fs st') = calls st'"
  by (simp add: new_calls_def prepend_history_def)

lemma new_logs_prepend: "new_logs st (prepend_history cs (logs st) fs st') = logs st'"
  by (simp add: new_logs_def prepend_history_def)

text \<open>
  Claim C8. Two runs of \<^verbatim>\<open>load\<close> with the same loader, collaborators (readers,
  file system, environment list builder, sink), specifier, key and silent flag, on
  settings objects with the same store, end with the same outcome, make the same
  sequence of update and set calls (with their data, identifier, secrecy flag and merge
  flag) and leave the same store, whatever the two settings objects had logged, loaded
  or been called with before.
\<close>

theorem load_deterministic:
  assumes "store st1 = store st2"
  shows "fst (load dp self filename key silent st1) = fst (load dp self filename key silent st2) \<and>
         new_calls st1 (snd (load dp self filename key silent st1)) =
           new_calls st2 (snd (load dp self filename key silent st2)) \<and>
         store (snd (load dp self filename key silent st1)) =
           store (snd (load dp self filename key silent st2))"
  using assms
  by (simp add: load_from_fresh [of dp self filename key silent st1]
        load_from_fresh [of dp self filename key silent st2] new_calls_prepend)

text \<open>
  The scenario of the spec on a settings object that has a history: the calls of the run
  and the final store are those of the run on the fresh object.
\<close>

theorem load_deterministic_witness:
  "fst (load (dict_collab [(''settings.toml'', ''text'')] [''default'', ''development''])
          (table_loader ''development'' [(''text'', scenario_source)])
          PNone None True (fresh dev_store)) =
   fst (load (dict_collab [(''settings.toml'', ''text'')] [''default'', ''development''])
          (table_loader ''development'' [(''text'', scenario_source)])
          PNone None True
          \<lparr>store = dev_store, calls = [SetKey ''OLD'' (PInt 0) ''env_global'' False (PBool False)],
           logs = [Debug ''earlier''], loaded_files = [''other.yaml'']\<rparr>) \<and>
   new_calls
     \<lparr>store = dev_store, calls = [SetKey ''OLD'' (PInt 0) ''env_global'' False (PBool False)],
      logs = [Debug ''earlier''], loaded_files = [''other.yaml'']\<rparr>
     (snd (load (dict_collab [(''settings.toml'', ''text'')] [''default'', ''development''])
          (table_loader ''development'' [(''text'', scenario_source)])
          PNone None True
          \<lparr>store = dev_store, calls = [SetKey ''OLD'' (PInt 0) ''env_global'' False (PBool False)],
           logs = [Debug ''earlier''], loaded_files = [''other.yaml'']\<rparr>)) =
     [Update [(''A'', PInt 1)] ''toml'' False (PBool True)] \<and>
   store (snd (load (dict_collab [(''settings.toml'', ''text'')] [''default'', ''development''])
          (table_loader ''development'' [(''text'', scenario_source)])
          PNone None True
          \<lparr>store = dev_store, calls = [SetKey ''OLD'' (PInt 0) ''env_global'' False (PBool False)],
           logs = [Debug ''earlier''], loaded_files = [''other.yaml'']\<rparr>)) =
     dev_store @ [(''A'', PInt 1)]"
  using load_deterministic [where dp = "dict_collab [(''settings.toml'', ''text'')] [''default'', ''development'']"
      and self = "table_loader ''development'' [(''text'', scenario_source)]"
      and filename = PNone and key = None and silent = True
      and ?st1.0 = "fresh dev_store"
      and ?st2.0 = "\<lparr>store = dev_store, calls = [SetKey ''OLD'' (PInt 0) ''env_global'' False (PBool False)],
           logs = [Debug ''earlier''], loaded_files = [''other.yaml'']\<rparr>"]
  by (simp add: eval_defs scenario_source_def)

section \<open>What a run without a key filter calls\<close>





















end
